theory Spec2Isabelle
  imports Complex_Main "HOL-Library.AList"
begin

section \<open>Python values\<close>

text \<open>
  A Python \<open>float\<close> is a binary64 value: \<open>Finite r\<close> for the finite value \<open>r\<close> (both
  zeros are \<open>Finite 0\<close>), the two infinities and NaN, all of which \<open>json.loads\<close> accepts.
  Comparisons of floats are exact and are defined here. Every operation that rounds
  (conversion from \<open>int\<close> and \<open>str\<close>, division) is a parameter of the model, see \<open>pyenv\<close>
  below.
\<close>

datatype pyfloat = Finite rat | PosInf | NegInf | NaN

text \<open>\<open>f > n\<close> for a float \<open>f\<close> and an int \<open>n\<close>.\<close>

fun float_gt :: "pyfloat \<Rightarrow> int \<Rightarrow> bool" where
  "float_gt (Finite r) n = (of_int n < r)"
| "float_gt PosInf n = True"
| "float_gt NegInf n = False"
| "float_gt NaN n = False"

text \<open>
  The values that cross the HTTP boundary are decoded JSON, and \<open>resp.json()\<close> can give
  any of them: \<open>JNull\<close> is Python's \<open>None\<close> (also what an empty body decodes to). A
  \<open>dict\<close> is an association list in insertion order; a decoded JSON object has distinct
  keys.
\<close>

datatype json =
    JNull
  | JBool bool
  | JInt int
  | JFloat pyfloat
  | JStr string
  | JArr "json list"
  | JObj "(string \<times> json) list"

type_synonym dict = "(string \<times> json) list"

text \<open>\<open>d.get(k, default)\<close> on a dict \<open>d\<close>.\<close>

definition dict_get :: "dict \<Rightarrow> string \<Rightarrow> json \<Rightarrow> json" where
  "dict_get d k dflt = (case map_of d k of Some v \<Rightarrow> v | None \<Rightarrow> dflt)"

text \<open>\<open>d.update(p)\<close>: each pair of \<open>p\<close> in turn overwrites an existing key in place or
  is appended.\<close>

definition dict_update :: "dict \<Rightarrow> dict \<Rightarrow> dict" where
  "dict_update d p = foldl (\<lambda>acc kv. AList.update (fst kv) (snd kv) acc) d p"

text \<open>Truthiness of a value, as \<open>if v:\<close> and \<open>a or b\<close> test it.\<close>

fun truthy :: "json \<Rightarrow> bool" where
  "truthy JNull = False"
| "truthy (JBool b) = b"
| "truthy (JInt i) = (i \<noteq> 0)"
| "truthy (JFloat f) = (f \<noteq> Finite 0)"
| "truthy (JStr s) = (s \<noteq> [])"
| "truthy (JArr xs) = (xs \<noteq> [])"
| "truthy (JObj d) = (d \<noteq> [])"

definition py_or :: "json \<Rightarrow> json \<Rightarrow> json" where
  "py_or a b = (if truthy a then a else b)"

text \<open>
  The keys of the registry are hashable Python values. Python compares the keys
  \<open>1\<close>, \<open>1.0\<close> and \<open>True\<close> equal, so a bool, an int and a finite float are keyed by
  their value (\<open>KNum\<close>); an infinity or a NaN is a key of its own (\<open>KFloat\<close>), and a NaN
  key is found again through the object that was stored. A list or a dict is
  unhashable: using one as a key, also in \<open>d.get(k)\<close>, raises \<open>TypeError\<close> (\<open>None\<close>
  here).
\<close>

datatype key = KNone | KNum rat | KFloat pyfloat | KStr string

fun hash_key :: "json \<Rightarrow> key option" where
  "hash_key JNull = Some KNone"
| "hash_key (JBool b) = Some (KNum (if b then 1 else 0))"
| "hash_key (JInt i) = Some (KNum (of_int i))"
| "hash_key (JFloat (Finite r)) = Some (KNum r)"
| "hash_key (JFloat f) = Some (KFloat f)"
| "hash_key (JStr s) = Some (KStr s)"
| "hash_key (JArr xs) = None"
| "hash_key (JObj d) = None"

subsection \<open>Formatting\<close>

fun str_nat :: "nat \<Rightarrow> string" where
  "str_nat n =
     (if n < 10 then [''0123456789'' ! n]
      else str_nat (n div 10) @ [''0123456789'' ! (n mod 10)])"

declare str_nat.simps [simp del]

definition str_int :: "int \<Rightarrow> string" where
  "str_int i = (if i < 0 then CHR ''-'' # str_nat (nat (- i)) else str_nat (nat i))"

text \<open>
  What lies outside the repository is a parameter of the model:
  \<^item> \<open>environ\<close>, the process environment \<open>os.environ\<close>;
  \<^item> \<open>round64\<close>, the rounding of a real number to the nearest binary64 value, \<open>None\<close>
    when the number is beyond the range of binary64 (then \<open>float(i)\<close> and the true
    division of two ints raise \<open>OverflowError\<close>);
  \<^item> \<open>float_of_str\<close>, the builtin \<open>float\<close> on a \<open>str\<close>, \<open>None\<close> for its \<open>ValueError\<close>;
  \<^item> \<open>repr_of\<close>, \<open>str\<close> of a float, a list or a dict.
  Every theorem below holds for every such environment.
\<close>

record pyenv =
  environ :: "string \<Rightarrow> string option"
  round64 :: "rat \<Rightarrow> pyfloat option"
  float_of_str :: "string \<Rightarrow> pyfloat option"
  repr_of :: "json \<Rightarrow> string"

text \<open>\<open>str(v)\<close>, which is also what an f-string field \<open>{v}\<close> renders.\<close>

fun py_str :: "pyenv \<Rightarrow> json \<Rightarrow> string" where
  "py_str env JNull = ''None''"
| "py_str env (JBool b) = (if b then ''True'' else ''False'')"
| "py_str env (JInt i) = str_int i"
| "py_str env (JStr s) = s"
| "py_str env v = repr_of env v"

text \<open>\<open>sep.join(ss)\<close>.\<close>

fun py_join :: "string \<Rightarrow> string list \<Rightarrow> string" where
  "py_join sep [] = []"
| "py_join sep [s] = s"
| "py_join sep (s # t # ss) = s @ sep @ py_join sep (t # ss)"

text \<open>\<open>API_BASE = os.environ.get("BROWSER_API_URL", "https://browser.proxies.sx")\<close>.\<close>

definition API_BASE :: "pyenv \<Rightarrow> string" where
  "API_BASE env =
     (case environ env ''BROWSER_API_URL'' of
        Some u \<Rightarrow> u
      | None \<Rightarrow> ''https://browser.proxies.sx'')"

section \<open>Data model (models.py)\<close>

datatype BrowserState = STARTING | READY | NAVIGATING | ERROR | CLOSED

type_synonym timestamp = nat

text \<open>
  \<open>BrowserInstance\<close>. The model does not validate on assignment, so \<open>instance_id\<close>,
  \<open>current_url\<close> and \<open>title\<close> hold whatever value is assigned to them.
\<close>

record BrowserInstance =
  instance_id :: json
  state :: BrowserState
  current_url :: json
  title :: json
  created_at :: timestamp
  last_activity :: timestamp
  headless :: bool
  user_agent :: "string option"
  viewport :: "(string \<times> int) list"

text \<open>\<open>BrowserOptions\<close>; its \<open>user_agent\<close> field is \<open>opt_user_agent\<close> here.\<close>

record BrowserOptions =
  country :: "string option"
  duration_minutes :: "int option"
  profile_id :: "string option"
  payment_signature :: "string option"
  opt_user_agent :: "string option"
  viewport_width :: int
  viewport_height :: int

section \<open>Exceptions\<close>

text \<open>
  \<open>PaymentRequiredError p price_usd addrs\<close> carries \<open>payment_info = p\<close>; its message
  \<open>f"Payment required: ${price_usd:.3f} USDC. Send to: {addrs}"\<close> is kept as the two
  values it is formatted from.
  \<open>Exception v\<close> is the plain \<open>Exception(v)\<close> with the single argument \<open>v\<close>; the
  unknown-instance error of \<open>send_command\<close> is one of these, with a \<open>str\<close> argument.
  \<open>Failed_to_create e\<close> is \<open>Exception(f"Failed to create browser session: {str(e)}")\<close>,
  kept with the exception it was made from.
  \<open>Raised m\<close> is an exception of the HTTP client (no connection, or a body that is not
  JSON). The others are the builtin exceptions of these names.
\<close>

datatype exc =
    PaymentRequiredError dict pyfloat string
  | Exception json
  | Failed_to_create exc
  | Raised string
  | TypeError
  | ValueError
  | AttributeError
  | OverflowError

text \<open>\<open>v.get(k, default)\<close> on any value: only a dict has \<open>get\<close>.\<close>

fun py_get :: "json \<Rightarrow> string \<Rightarrow> json \<Rightarrow> exc + json" where
  "py_get (JObj d) k dflt = Inr (dict_get d k dflt)"
| "py_get v k dflt = Inl AttributeError"

section \<open>The remote service\<close>

datatype http_method = GET | POST | DELETE

record request =
  verb :: http_method
  url :: string
  json_body :: "dict option"
  headers :: "(string \<times> string) list"

text \<open>
  One HTTP exchange either raises in the client (\<open>Http_raises\<close>: no connection, or a
  body that \<open>resp.json()\<close> refuses) or yields a status and the decoded body, which is any
  JSON value. The network answers the \<open>n\<close>-th request of the process.
\<close>

datatype response = Http_raises string | Http_response int json

type_synonym network = "nat \<Rightarrow> request \<Rightarrow> response"

section \<open>BrowserManager (browser_manager.py)\<close>

text \<open>
  A value of the registry \<open>_instances\<close>. A key of the Python dict that is absent from a
  record is \<open>None\<close> here: the sentinel record has \<open>payment_info\<close> and none of
  \<open>expires_at\<close>, \<open>proxy\<close>, \<open>fingerprint\<close>, \<open>loaded_profile_id\<close>; a session record has
  those four and no \<open>payment_info\<close>.
\<close>

record session =
  "instance" :: BrowserInstance
  session_id :: json
  session_token :: json
  payment_info :: "json option"
  expires_at :: "json option"
  proxy :: "json option"
  fingerprint :: "json option"
  loaded_profile_id :: "json option"

text \<open>
  The state of a \<open>BrowserManager\<close> and of the world it talks to: the registry
  \<open>_instances\<close>, whether \<open>_http\<close> is an open client, and the requests issued so far.
  The lock is not modelled: the calls run one after another.
\<close>

record world =
  instances :: "(key \<times> session) list"
  http_open :: bool
  sent :: "request list"

definition get_http :: "world \<Rightarrow> world" where
  "get_http w = (if \<not> http_open w then w\<lparr>http_open := True\<rparr> else w)"

definition http_call :: "network \<Rightarrow> request \<Rightarrow> world \<Rightarrow> response \<times> world" where
  "http_call net req w = (net (length (sent w)) req, w\<lparr>sent := sent w @ [req]\<rparr>)"

subsection \<open>PaymentRequiredError.__init__\<close>

text \<open>\<open>float(v)\<close>. The conversion of a \<open>bool\<close> is exact, that of an \<open>int\<close> rounds and
  overflows.\<close>

fun py_float :: "pyenv \<Rightarrow> json \<Rightarrow> exc + pyfloat" where
  "py_float env JNull = Inl TypeError"
| "py_float env (JBool b) = Inr (Finite (if b then 1 else 0))"
| "py_float env (JInt i) =
     (case round64 env (of_int i) of Some f \<Rightarrow> Inr f | None \<Rightarrow> Inl OverflowError)"
| "py_float env (JFloat f) = Inr f"
| "py_float env (JStr s) =
     (case float_of_str env s of Some f \<Rightarrow> Inr f | None \<Rightarrow> Inl ValueError)"
| "py_float env (JArr xs) = Inl TypeError"
| "py_float env (JObj d) = Inl TypeError"

text \<open>\<open>isinstance(v, (int, float))\<close>; a \<open>bool\<close> is an \<open>int\<close>.\<close>

fun isinstance_int_float :: "json \<Rightarrow> bool" where
  "isinstance_int_float (JBool b) = True"
| "isinstance_int_float (JInt i) = True"
| "isinstance_int_float (JFloat f) = True"
| "isinstance_int_float v = False"

text \<open>\<open>v > n\<close> for an int \<open>n\<close>. The code evaluates it only behind the \<open>isinstance\<close>
  test, so the last equation is never used.\<close>

fun py_gt :: "json \<Rightarrow> int \<Rightarrow> bool" where
  "py_gt (JBool b) n = (n < (if b then 1 else 0))"
| "py_gt (JInt i) n = (n < i)"
| "py_gt (JFloat f) n = float_gt f n"
| "py_gt v n = False"

text \<open>
  \<open>v / n\<close> for a positive int \<open>n\<close>. The true division of two ints is the rounded
  quotient and raises \<open>OverflowError\<close> beyond the range of binary64. The division of a
  float follows IEEE 754: it rounds, and gives an infinity where the quotient is beyond
  the range. As with \<open>py_gt\<close>, the last equation is never used.
\<close>

fun py_truediv :: "pyenv \<Rightarrow> json \<Rightarrow> int \<Rightarrow> exc + pyfloat" where
  "py_truediv env (JBool b) n =
     (case round64 env ((if b then 1 else 0) / of_int n) of
        Some f \<Rightarrow> Inr f | None \<Rightarrow> Inl OverflowError)"
| "py_truediv env (JInt i) n =
     (case round64 env (of_int i / of_int n) of
        Some f \<Rightarrow> Inr f | None \<Rightarrow> Inl OverflowError)"
| "py_truediv env (JFloat (Finite r)) n =
     (case round64 env (r / of_int n) of
        Some f \<Rightarrow> Inr f | None \<Rightarrow> Inr (if 0 < r then PosInf else NegInf))"
| "py_truediv env (JFloat f) n = Inr f"
| "py_truediv env v n = Inl TypeError"

text \<open>
  \<open>f"{n.get('network')}: {n.get('address')}" for n in networks\<close>: every element must
  have \<open>get\<close>, that is, be a dict.
\<close>

fun network_strs :: "pyenv \<Rightarrow> json list \<Rightarrow> exc + string list" where
  "network_strs env [] = Inr []"
| "network_strs env (JObj n # ns) =
     (case network_strs env ns of
        Inl e \<Rightarrow> Inl e
      | Inr ss \<Rightarrow>
          Inr ((py_str env (dict_get n ''network'' JNull) @ '': '' @
                py_str env (dict_get n ''address'' JNull)) # ss))"
| "network_strs env (v # ns) = Inl AttributeError"

text \<open>
  \<open>networks = payment_info.get("networks", [])\<close> and the \<open>join\<close> over it, for a
  \<open>payment_info\<close> that is the dict \<open>info\<close>. Iterating a string yields strings and
  iterating a dict yields its keys, neither of which has \<open>get\<close>; \<open>None\<close> and numbers
  are not iterable.
\<close>

definition init_addrs :: "pyenv \<Rightarrow> dict \<Rightarrow> exc + string" where
  "init_addrs env info =
     (case dict_get info ''networks'' (JArr []) of
        JArr ns \<Rightarrow>
          (case network_strs env ns of
             Inl e \<Rightarrow> Inl e
           | Inr ss \<Rightarrow> Inr (py_join '', '' ss))
      | JStr s \<Rightarrow> (if s = [] then Inr [] else Inl AttributeError)
      | JObj d \<Rightarrow> (if d = [] then Inr [] else Inl AttributeError)
      | _ \<Rightarrow> Inl TypeError)"

text \<open>The price rule of the constructor (lines 380 to 386).\<close>

definition init_price_usd :: "pyenv \<Rightarrow> dict \<Rightarrow> exc + pyfloat" where
  "init_price_usd env info =
     (let price = dict_get info ''price'' (JInt 0) in
      if isinstance_int_float price \<and> py_gt price 1000 then py_truediv env price 1000000
      else case price of
             JObj d \<Rightarrow> py_float env (dict_get d ''amount'' (JInt 0))
           | _ \<Rightarrow> py_float env price)"

text \<open>
  \<open>PaymentRequiredError(data)\<close>: the exception that evaluating the constructor call ends
  in, either the new \<open>PaymentRequiredError\<close> or what \<open>__init__\<close> raised on the way. The
  first \<open>payment_info.get\<close> raises \<open>AttributeError\<close> on a value that is no dict; \<open>addrs\<close>
  is computed before the price.
\<close>

definition PaymentRequiredError_init :: "pyenv \<Rightarrow> json \<Rightarrow> exc" where
  "PaymentRequiredError_init env data =
     (case data of
        JObj info \<Rightarrow>
          (case init_addrs env info of
             Inl e \<Rightarrow> e
           | Inr addrs \<Rightarrow>
               (case init_price_usd env info of
                  Inl e \<Rightarrow> e
                | Inr price_usd \<Rightarrow> PaymentRequiredError info price_usd addrs))
      | _ \<Rightarrow> AttributeError)"

subsection \<open>The price rule of the tool layer (server.py, spawn\_browser)\<close>

text \<open>Lines 161 to 168 of the \<open>except PaymentRequiredError as e\<close> handler, with
  \<open>info\<close> for \<open>pi = e.payment_info\<close>.\<close>

definition handler_price_usd :: "pyenv \<Rightarrow> dict \<Rightarrow> exc + pyfloat" where
  "handler_price_usd env info =
     (let price = dict_get info ''price'' (JInt 0) in
      if isinstance_int_float price \<and> py_gt price 1000 then py_truediv env price 1000000
      else case price of
             JObj d \<Rightarrow> py_float env (dict_get d ''amount'' (JInt 0))
           | _ \<Rightarrow> py_float env price)"

subsection \<open>spawn\_browser\<close>

text \<open>The request body (lines 52 to 60). \<open>hasattr\<close> holds for every field of
  \<open>BrowserOptions\<close>; \<open>if options.x\<close> is false for \<open>None\<close>, for \<open>0\<close> and for the empty
  string.\<close>

definition request_body :: "BrowserOptions \<Rightarrow> dict" where
  "request_body options =
     (let body = [];
          body = (case country options of
                    Some c \<Rightarrow> if c \<noteq> [] then AList.update ''country'' (JStr c) body else body
                  | None \<Rightarrow> body);
          body = (case duration_minutes options of
                    Some n \<Rightarrow>
                      if n \<noteq> 0 then AList.update ''durationMinutes'' (JInt n) body
                      else AList.update ''durationMinutes'' (JInt 60) body
                  | None \<Rightarrow> AList.update ''durationMinutes'' (JInt 60) body);
          body = (case profile_id options of
                    Some p \<Rightarrow> if p \<noteq> [] then AList.update ''profile_id'' (JStr p) body else body
                  | None \<Rightarrow> body)
      in body)"

text \<open>The request headers (lines 62 to 70).\<close>

definition request_headers :: "pyenv \<Rightarrow> BrowserOptions \<Rightarrow> (string \<times> string) list" where
  "request_headers env options =
     (let hdrs = [(''Content-Type'', ''application/json'')];
          payment_sig = (case payment_signature options of
                           Some s \<Rightarrow> if s \<noteq> [] then Some s else environ env ''PAYMENT_SIGNATURE''
                         | None \<Rightarrow> environ env ''PAYMENT_SIGNATURE'');
          hdrs = (case payment_sig of
                       Some s \<Rightarrow>
                         if s \<noteq> [] then AList.update ''Payment-Signature'' s hdrs else hdrs
                     | None \<Rightarrow> hdrs);
          internal_key = environ env ''BROWSER_INTERNAL_KEY'';
          hdrs = (case internal_key of
                       Some s \<Rightarrow>
                         if s \<noteq> [] then AList.update ''X-Internal-Key'' s hdrs else hdrs
                     | None \<Rightarrow> hdrs)
      in hdrs)"

definition create_request :: "pyenv \<Rightarrow> BrowserOptions \<Rightarrow> request" where
  "create_request env options =
     \<lparr>verb = POST, url = API_BASE env @ ''/v1/sessions'',
      json_body = Some (request_body options), headers = request_headers env options\<rparr>"

text \<open>\<open>BrowserInstance(instance_id="pending", headless=True, ...)\<close>; the two timestamps are
  the two readings of the clock that the default factories take.\<close>

definition pending_instance :: "timestamp \<Rightarrow> timestamp \<Rightarrow> BrowserOptions \<Rightarrow> BrowserInstance" where
  "pending_instance t1 t2 options =
     \<lparr>instance_id = JStr ''pending'', state = STARTING, current_url = JNull, title = JNull,
      created_at = t1, last_activity = t2, headless = True,
      user_agent = opt_user_agent options,
      viewport = [(''width'', viewport_width options), (''height'', viewport_height options)]\<rparr>"

text \<open>
  Lines 90 to 107, for a body that is the dict \<open>d\<close>: the record is stored under the
  session id, which must be hashable.
\<close>

definition store_session ::
  "BrowserInstance \<Rightarrow> dict \<Rightarrow> world \<Rightarrow> (exc + BrowserInstance) \<times> world" where
  "store_session inst d w =
     (let sid = dict_get d ''session_id'' JNull;
          tok = dict_get d ''session_token'' sid;
          inst = inst\<lparr>instance_id := sid, state := READY\<rparr>
      in case hash_key sid of
           None \<Rightarrow> (Inl TypeError, w)
         | Some k \<Rightarrow>
             (Inr inst,
              w\<lparr>instances :=
                AList.update k
                  \<lparr>instance = inst, session_id = sid, session_token = tok,
                   payment_info = None,
                   expires_at = Some (py_or (dict_get d ''expires_at'' JNull)
                                            (dict_get d ''expiresAt'' JNull)),
                   proxy = Some (dict_get d ''proxy'' (JObj [])),
                   fingerprint = Some (dict_get d ''fingerprint'' (JObj [])),
                   loaded_profile_id = Some (dict_get d ''loaded_profile_id'' JNull)\<rparr>
                  (instances w)\<rparr>))"

text \<open>
  The body of the \<open>try\<close> block: the exception it ends in, or the instance it returns.
  The \<open>raise PaymentRequiredError(data)\<close> of the 402 branch ends in whatever evaluating the
  constructor call ends in. Outside the 402 branch the first \<open>data.get\<close> raises
  \<open>AttributeError\<close> when the body is no dict.
\<close>

definition spawn_browser_try ::
  "pyenv \<Rightarrow> network \<Rightarrow> BrowserInstance \<Rightarrow> BrowserOptions \<Rightarrow> world \<Rightarrow> (exc + BrowserInstance) \<times> world" where
  "spawn_browser_try env net inst options w0 =
     (let w1 = get_http w0;
          (resp, w2) = http_call net (create_request env options) w1
      in case resp of
           Http_raises m \<Rightarrow> (Inl (Raised m), w2)
         | Http_response status data \<Rightarrow>
             if status = 402 then
               (let inst = inst\<lparr>state := ERROR, instance_id := JStr ''payment_required''\<rparr>;
                    w3 = w2\<lparr>instances :=
                           AList.update (KStr ''payment_required'')
                             \<lparr>instance = inst, session_id = JNull, session_token = JNull,
                              payment_info = Some data, expires_at = None, proxy = None,
                              fingerprint = None, loaded_profile_id = None\<rparr>
                             (instances w2)\<rparr>
                in (Inl (PaymentRequiredError_init env data), w3))
             else if status \<notin> {200, 201} then
               (case py_get data ''error'' (JStr (''API error '' @ str_int status)) of
                  Inl e \<Rightarrow> (Inl e, w2)
                | Inr v \<Rightarrow> (Inl (Exception v), w2))
             else
               (case data of
                  JObj d \<Rightarrow> store_session inst d w2
                | _ \<Rightarrow> (Inl AttributeError, w2)))"

text \<open>
  The \<open>except\<close> clauses: a \<open>PaymentRequiredError\<close> is raised again as it is, every other
  exception becomes the generic failure. The handler's \<open>instance.state = ERROR\<close> changes
  an instance that is either in no record or already in the error state.
\<close>

fun spawn_browser_except :: "exc \<Rightarrow> exc" where
  "spawn_browser_except (PaymentRequiredError p price_usd addrs) = PaymentRequiredError p price_usd addrs"
| "spawn_browser_except e = Failed_to_create e"

definition spawn_browser ::
  "pyenv \<Rightarrow> network \<Rightarrow> timestamp \<Rightarrow> timestamp \<Rightarrow> BrowserOptions \<Rightarrow> world \<Rightarrow> (exc + BrowserInstance) \<times> world" where
  "spawn_browser env net t1 t2 options w0 =
     (case spawn_browser_try env net (pending_instance t1 t2 options) options w0 of
        (Inl e, w) \<Rightarrow> (Inl (spawn_browser_except e), w)
      | (Inr inst, w) \<Rightarrow> (Inr inst, w))"

subsection \<open>send\_command and navigate\<close>

text \<open>\<open>if not session\<close> holds only for an absent record: every record of the registry is
  a non-empty dict.\<close>

definition command_request :: "pyenv \<Rightarrow> session \<Rightarrow> string \<Rightarrow> dict option \<Rightarrow> request" where
  "command_request env s action params =
     (let sid = session_id s;
          token = session_token s;
          body = [(''action'', JStr action)];
          body = (case params of
                    Some p \<Rightarrow> if p \<noteq> [] then dict_update body p else body
                  | None \<Rightarrow> body);
          hdrs = [(''Content-Type'', ''application/json''),
                     (''Authorization'', ''Bearer '' @ py_str env token)]
      in \<lparr>verb = POST, url = API_BASE env @ ''/v1/sessions/'' @ py_str env sid @ ''/command'',
          json_body = Some body, headers = hdrs\<rparr>)"

text \<open>
  \<open>send_command\<close>. The id \<open>iid\<close> is the Python value passed as \<open>instance_id\<close>; the lookup
  hashes it. The unknown-instance error is the plain
  \<open>Exception(f"No browser instance: {instance_id}")\<close>.
\<close>

definition send_command ::
  "pyenv \<Rightarrow> network \<Rightarrow> json \<Rightarrow> string \<Rightarrow> dict option \<Rightarrow> world \<Rightarrow> (exc + json) \<times> world" where
  "send_command env net iid action params w0 =
     (case hash_key iid of
        None \<Rightarrow> (Inl TypeError, w0)
      | Some k \<Rightarrow>
          (case map_of (instances w0) k of
             None \<Rightarrow> (Inl (Exception (JStr (''No browser instance: '' @ py_str env iid))), w0)
           | Some s \<Rightarrow>
               (let w1 = get_http w0;
                    (resp, w2) = http_call net (command_request env s action params) w1
                in case resp of
                     Http_raises m \<Rightarrow> (Inl (Raised m), w2)
                   | Http_response status data \<Rightarrow>
                       if status \<noteq> 200 then
                         (case py_get data ''error''
                                 (JStr (''Command failed: '' @ str_int status)) of
                            Inl e \<Rightarrow> (Inl e, w2)
                          | Inr v \<Rightarrow> (Inl (Exception v), w2))
                       else (Inr data, w2))))"

text \<open>
  The part of \<open>navigate\<close> under the lock, after the command has returned \<open>result\<close>. When
  the record is there, \<open>result.get\<close> raises \<open>AttributeError\<close> on a result that is no
  dict, before anything is assigned.
\<close>

definition navigate_update :: "timestamp \<Rightarrow> json \<Rightarrow> string \<Rightarrow> json \<Rightarrow> world \<Rightarrow> exc + world" where
  "navigate_update now iid u result w =
     (case hash_key iid of
        None \<Rightarrow> Inl TypeError
      | Some k \<Rightarrow>
          (case map_of (instances w) k of
             None \<Rightarrow> Inr w
           | Some s \<Rightarrow>
               (case py_get result ''url'' (JStr u) of
                  Inl e \<Rightarrow> Inl e
                | Inr new_url \<Rightarrow>
                    (case py_get result ''title'' (JStr []) of
                       Inl e \<Rightarrow> Inl e
                     | Inr new_title \<Rightarrow>
                         Inr (w\<lparr>instances :=
                                AList.update k
                                  (s\<lparr>instance := (instance s)
                                       \<lparr>current_url := new_url,
                                        title := new_title,
                                        state := READY,
                                        last_activity := now\<rparr>\<rparr>)
                                  (instances w)\<rparr>)))))"

definition navigate ::
  "pyenv \<Rightarrow> network \<Rightarrow> timestamp \<Rightarrow> json \<Rightarrow> string \<Rightarrow> string \<Rightarrow> world \<Rightarrow> (exc + json) \<times> world" where
  "navigate env net now iid u wait_until w0 =
     (case send_command env net iid ''navigate''
             (Some [(''url'', JStr u), (''wait_until'', JStr wait_until)]) w0 of
        (Inl e, w1) \<Rightarrow> (Inl e, w1)
      | (Inr result, w1) \<Rightarrow>
          (case navigate_update now iid u result w1 of
             Inl e \<Rightarrow> (Inl e, w1)
           | Inr w2 \<Rightarrow> (Inr result, w2)))"

subsection \<open>Lookup and removal\<close>

text \<open>In the lookup and in the removal the id is given as the key it hashes to.\<close>

definition get_session_data :: "world \<Rightarrow> key \<Rightarrow> session option" where
  "get_session_data w iid = map_of (instances w) iid"

definition get_instance :: "world \<Rightarrow> key \<Rightarrow> BrowserInstance option" where
  "get_instance w iid = (case map_of (instances w) iid of Some s \<Rightarrow> Some (instance s) | None \<Rightarrow> None)"

text \<open>\<open>del d[k]\<close>: \<open>None\<close> is its \<open>KeyError\<close>.\<close>

definition py_del :: "key \<Rightarrow> (key \<times> session) list \<Rightarrow> (key \<times> session) list option" where
  "py_del k d = (if k \<in> fst ` set d then Some (AList.delete k d) else None)"

definition close_request :: "pyenv \<Rightarrow> session \<Rightarrow> request" where
  "close_request env s =
     \<lparr>verb = DELETE, url = API_BASE env @ ''/v1/sessions/'' @ py_str env (session_id s),
      json_body = None, headers = [(''Authorization'', ''Bearer '' @ py_str env (session_token s))]\<rparr>"

text \<open>The \<open>except Exception\<close> handler of \<open>close_browser\<close>.\<close>

definition close_browser_except :: "key \<Rightarrow> world \<Rightarrow> bool \<times> world" where
  "close_browser_except iid w =
     (True, if iid \<in> fst ` set (instances w)
            then w\<lparr>instances := AList.delete iid (instances w)\<rparr> else w)"

definition close_browser :: "pyenv \<Rightarrow> network \<Rightarrow> key \<Rightarrow> world \<Rightarrow> bool \<times> world" where
  "close_browser env net iid w0 =
     (case map_of (instances w0) iid of
        None \<Rightarrow> (False, w0)
      | Some s \<Rightarrow>
          (let w1 = get_http w0;
               (resp, w2) = http_call net (close_request env s) w1
           in case resp of
                Http_raises m \<Rightarrow> close_browser_except iid w2
              | Http_response status data \<Rightarrow>
                  (case py_del iid (instances w2) of
                     Some d \<Rightarrow> (True, w2\<lparr>instances := d\<rparr>)
                   | None \<Rightarrow> close_browser_except iid w2)))"

text \<open>\<open>close_all\<close>: the ids are listed first, then closed one after another.\<close>

definition close_all :: "pyenv \<Rightarrow> network \<Rightarrow> world \<Rightarrow> world" where
  "close_all env net w0 =
     foldl (\<lambda>w iid. snd (close_browser env net iid w)) w0 (map fst (instances w0))"

section \<open>Example inputs\<close>

text \<open>
  An environment with no variable set. Its rounding is the identity, which is right on
  the numbers that binary64 holds exactly; it reads no string as a float. No example
  below depends on either.
\<close>

definition example_env :: pyenv where
  "example_env =
     \<lparr>environ = (\<lambda>k. None), round64 = (\<lambda>r. Some (Finite r)),
      float_of_str = (\<lambda>s. None), repr_of = (\<lambda>v. ''<repr>'')\<rparr>"

definition example_options :: BrowserOptions where
  "example_options =
     \<lparr>country = Some ''US'', duration_minutes = Some 0, profile_id = None,
      payment_signature = None, opt_user_agent = None,
      viewport_width = 1920, viewport_height = 1080\<rparr>"

definition empty_world :: world where
  "empty_world = \<lparr>instances = [], http_open = False, sent = []\<rparr>"

text \<open>A network that gives the same answer to every request.\<close>

definition always :: "response \<Rightarrow> network" where
  "always r = (\<lambda>n req. r)"

text \<open>A world that holds one session, \<open>s1\<close>, as a creation answered with status 201
  leaves it.\<close>

definition example_world :: world where
  "example_world =
     \<lparr>instances =
        [(KStr ''s1'',
          \<lparr>instance = \<lparr>instance_id = JStr ''s1'', state = READY, current_url = JNull,
                        title = JNull, created_at = 0, last_activity = 0, headless = True,
                        user_agent = None, viewport = [(''width'', 1920), (''height'', 1080)]\<rparr>,
           session_id = JStr ''s1'', session_token = JStr ''tok1'', payment_info = None,
           expires_at = Some JNull, proxy = Some (JObj [(''country'', JStr ''US'')]),
           fingerprint = Some (JObj []), loaded_profile_id = Some JNull\<rparr>)],
      http_open = True,
      sent = []\<rparr>"

text \<open>The world that a creation answered with status 402 leaves, starting from the empty
  one.\<close>

definition payment_required_world :: world where
  "payment_required_world =
     snd (spawn_browser example_env
            (always (Http_response 402
               (JObj [(''price'', JInt 1500000),
                      (''networks'', JArr [JObj [(''network'', JStr ''base''),
                                                 (''address'', JStr ''0xabc'')]])])))
            0 0 example_options empty_world)"

section \<open>Creation: what each response leads to\<close>

lemma get_http_sent [simp]: "sent (get_http w) = sent w"
  by (simp add: get_http_def)

lemma get_http_instances [simp]: "instances (get_http w) = instances w"
  by (simp add: get_http_def)

lemma py_get_Inl: "py_get v k dflt = Inl e \<Longrightarrow> e = AttributeError"
  by (cases v) simp_all

lemma py_get_no_dict: "(\<And>d. v \<noteq> JObj d) \<Longrightarrow> py_get v k dflt = Inl AttributeError"
  by (cases v) auto

lemma spawn_browser_snd:
  "snd (spawn_browser env net t1 t2 options w) =
     snd (spawn_browser_try env net (pending_instance t1 t2 options) options w)"
  by (simp add: spawn_browser_def split: prod.split sum.split)

lemma spawn_browser_fst:
  "fst (spawn_browser env net t1 t2 options w) =
     (case fst (spawn_browser_try env net (pending_instance t1 t2 options) options w) of
        Inl e \<Rightarrow> Inl (spawn_browser_except e)
      | Inr inst \<Rightarrow> Inr inst)"
  by (simp add: spawn_browser_def split: prod.split sum.split)

lemma spawn_browser_sent:
  "sent (snd (spawn_browser env net t1 t2 options w)) = sent w @ [create_request env options]"
  unfolding spawn_browser_snd
  by (cases "net (length (sent w)) (create_request env options)")
    (auto simp add: spawn_browser_try_def http_call_def Let_def store_session_def
      split: json.split sum.split option.split)

lemma spawn_browser_raises:
  assumes "net (length (sent w)) (create_request env options) = Http_raises m"
  shows "fst (spawn_browser env net t1 t2 options w) = Inl (Failed_to_create (Raised m))"
    and "instances (snd (spawn_browser env net t1 t2 options w)) = instances w"
  using assms
  by (simp_all add: spawn_browser_fst spawn_browser_snd spawn_browser_try_def http_call_def Let_def)

lemma spawn_browser_402:
  assumes "net (length (sent w)) (create_request env options) = Http_response 402 data"
  shows "fst (spawn_browser env net t1 t2 options w) =
           Inl (spawn_browser_except (PaymentRequiredError_init env data))"
    and "instances (snd (spawn_browser env net t1 t2 options w)) =
           AList.update (KStr ''payment_required'')
             \<lparr>instance = (pending_instance t1 t2 options)
                            \<lparr>state := ERROR, instance_id := JStr ''payment_required''\<rparr>,
              session_id = JNull, session_token = JNull, payment_info = Some data,
              expires_at = None, proxy = None, fingerprint = None, loaded_profile_id = None\<rparr>
             (instances w)"
  using assms
  by (simp_all add: spawn_browser_fst spawn_browser_snd spawn_browser_try_def http_call_def Let_def)

text \<open>A status other than 200, 201 and 402: the creation fails and the registry is as
  it was, whatever the body.\<close>

lemma spawn_browser_other:
  assumes "net (length (sent w)) (create_request env options) = Http_response status data"
    and "status \<noteq> 402" and "status \<noteq> 200" and "status \<noteq> 201"
  shows "fst (spawn_browser env net t1 t2 options w) =
           (case py_get data ''error'' (JStr (''API error '' @ str_int status)) of
              Inl e \<Rightarrow> Inl (Failed_to_create e)
            | Inr v \<Rightarrow> Inl (Failed_to_create (Exception v)))"
    and "instances (snd (spawn_browser env net t1 t2 options w)) = instances w"
  using assms
  by (auto simp add: spawn_browser_fst spawn_browser_snd spawn_browser_try_def http_call_def Let_def
      split: sum.split dest: py_get_Inl)

lemma spawn_browser_ok:
  assumes "net (length (sent w)) (create_request env options) = Http_response status (JObj data)"
    and "status = 200 \<or> status = 201"
    and "hash_key (dict_get data ''session_id'' JNull) = Some k"
  shows "fst (spawn_browser env net t1 t2 options w) =
           Inr ((pending_instance t1 t2 options)
                  \<lparr>instance_id := dict_get data ''session_id'' JNull, state := READY\<rparr>)"
    and "instances (snd (spawn_browser env net t1 t2 options w)) =
           AList.update k
             \<lparr>instance = (pending_instance t1 t2 options)
                            \<lparr>instance_id := dict_get data ''session_id'' JNull, state := READY\<rparr>,
              session_id = dict_get data ''session_id'' JNull,
              session_token = dict_get data ''session_token'' (dict_get data ''session_id'' JNull),
              payment_info = None,
              expires_at = Some (py_or (dict_get data ''expires_at'' JNull)
                                       (dict_get data ''expiresAt'' JNull)),
              proxy = Some (dict_get data ''proxy'' (JObj [])),
              fingerprint = Some (dict_get data ''fingerprint'' (JObj [])),
              loaded_profile_id = Some (dict_get data ''loaded_profile_id'' JNull)\<rparr>
             (instances w)"
  using assms
  by (auto simp add: spawn_browser_fst spawn_browser_snd spawn_browser_try_def http_call_def
      store_session_def Let_def)

lemma spawn_browser_unhashable:
  assumes "net (length (sent w)) (create_request env options) = Http_response status (JObj data)"
    and "status = 200 \<or> status = 201"
    and "hash_key (dict_get data ''session_id'' JNull) = None"
  shows "fst (spawn_browser env net t1 t2 options w) = Inl (Failed_to_create TypeError)"
    and "instances (snd (spawn_browser env net t1 t2 options w)) = instances w"
  using assms
  by (auto simp add: spawn_browser_fst spawn_browser_snd spawn_browser_try_def http_call_def
      store_session_def Let_def)

lemma spawn_browser_no_dict:
  assumes "net (length (sent w)) (create_request env options) = Http_response status data"
    and "status = 200 \<or> status = 201"
    and "\<And>d. data \<noteq> JObj d"
  shows "fst (spawn_browser env net t1 t2 options w) = Inl (Failed_to_create AttributeError)"
    and "instances (snd (spawn_browser env net t1 t2 options w)) = instances w"
  using assms
  by (cases data;
      auto simp add: spawn_browser_fst spawn_browser_snd spawn_browser_try_def http_call_def Let_def)+

lemma spawn_browser_Inr_cases:
  assumes "spawn_browser env net t1 t2 options w = (Inr inst, w')"
  obtains status data k where
    "net (length (sent w)) (create_request env options) = Http_response status (JObj data)"
    and "status = 200 \<or> status = 201" and "hash_key (dict_get data ''session_id'' JNull) = Some k"
proof (cases "net (length (sent w)) (create_request env options)")
  case (Http_raises m)
  with spawn_browser_raises(1)[of net w env options m t1 t2] assms show ?thesis by simp
next
  case (Http_response status body)
  show ?thesis
  proof (cases "status = 402")
    case True
    with Http_response spawn_browser_402(1)[of net w env options body t1 t2] assms
    show ?thesis by simp
  next
    case n402: False
    show ?thesis
    proof (cases "status = 200 \<or> status = 201")
      case False
      with n402 Http_response spawn_browser_other(1)[of net w env options status body t1 t2] assms
      show ?thesis by (simp split: sum.splits)
    next
      case True
      show ?thesis
      proof (cases "\<exists>d. body = JObj d")
        case False
        with Http_response True spawn_browser_no_dict(1)[of net w env options status body t1 t2] assms
        show ?thesis by simp
      next
        case isdict: True
        then obtain data where body: "body = JObj data" by blast
        show ?thesis
        proof (cases "hash_key (dict_get data ''session_id'' JNull)")
          case None
          with Http_response body True
            spawn_browser_unhashable(1)[of net w env options status data t1 t2] assms
          show ?thesis by simp
        next
          case (Some k)
          with Http_response body True that show ?thesis by blast
        qed
      qed
    qed
  qed
qed

section \<open>The request body of a creation call\<close>

lemma request_body_durationMinutes:
  "map_of (request_body options) ''durationMinutes'' =
     Some (JInt (case duration_minutes options of
                   Some n \<Rightarrow> if n \<noteq> 0 then n else 60
                 | None \<Rightarrow> 60))"
  by (simp add: request_body_def Let_def update_conv' split: option.split)

text \<open>
  Claim C9. Every creation call issues one POST whose body has the key
  \<open>durationMinutes\<close>: it is \<open>options.duration_minutes\<close> when that is set and not zero,
  and 60 otherwise. An explicit 0 is replaced by 60 and the request is sent all the same.
\<close>

theorem spawn_browser_durationMinutes:
  "\<exists>body. sent (snd (spawn_browser env net t1 t2 options w)) =
            sent w @ [\<lparr>verb = POST, url = API_BASE env @ ''/v1/sessions'',
                       json_body = Some body, headers = request_headers env options\<rparr>]
        \<and> map_of body ''durationMinutes'' =
            Some (JInt (case duration_minutes options of
                          Some n \<Rightarrow> if n \<noteq> 0 then n else 60
                        | None \<Rightarrow> 60))"
  using request_body_durationMinutes [of options]
  by (simp add: spawn_browser_sent create_request_def)

theorem spawn_browser_durationMinutes_witness:
  "\<exists>body. sent (snd (spawn_browser example_env (always (Http_raises ''offline'')) 0 0
                       example_options empty_world)) =
            [\<lparr>verb = POST, url = ''https://browser.proxies.sx/v1/sessions'',
              json_body = Some body, headers = [(''Content-Type'', ''application/json'')]\<rparr>]
        \<and> map_of body ''durationMinutes'' = Some (JInt 60)"
  using spawn_browser_durationMinutes [of example_env "always (Http_raises ''offline'')" 0 0
      example_options empty_world]
  by (simp add: example_options_def example_env_def empty_world_def API_BASE_def
      request_headers_def)

section \<open>Successful creation\<close>

text \<open>
  Claim C5. When creation succeeds, the id of the returned instance is the response's
  \<open>session_id\<close>, and looking that id up gives a record whose token is the response's
  \<open>session_token\<close> when the key is present and the \<open>session_id\<close> when it is absent.
\<close>

theorem spawn_browser_success_id_token:
  assumes "spawn_browser env net t1 t2 options w = (Inr inst, w')"
  shows "\<exists>status data k s.
           net (length (sent w)) (create_request env options) = Http_response status (JObj data)
         \<and> instance_id inst = dict_get data ''session_id'' JNull
         \<and> hash_key (instance_id inst) = Some k
         \<and> get_session_data w' k = Some s
         \<and> instance s = inst
         \<and> session_id s = instance_id inst
         \<and> session_token s =
             (case map_of data ''session_token'' of
                Some t \<Rightarrow> t
              | None \<Rightarrow> instance_id inst)"
proof -
  from assms obtain status data k where
    r: "net (length (sent w)) (create_request env options) = Http_response status (JObj data)"
    and st: "status = 200 \<or> status = 201"
    and k: "hash_key (dict_get data ''session_id'' JNull) = Some k"
    by (rule spawn_browser_Inr_cases)
  from spawn_browser_ok [of net w env options status data k t1 t2] r st k assms
  have i: "inst = (pending_instance t1 t2 options)
                    \<lparr>instance_id := dict_get data ''session_id'' JNull, state := READY\<rparr>"
    and m: "map_of (instances w') k = Some
             \<lparr>instance = (pending_instance t1 t2 options)
                            \<lparr>instance_id := dict_get data ''session_id'' JNull, state := READY\<rparr>,
              session_id = dict_get data ''session_id'' JNull,
              session_token = dict_get data ''session_token'' (dict_get data ''session_id'' JNull),
              payment_info = None,
              expires_at = Some (py_or (dict_get data ''expires_at'' JNull)
                                       (dict_get data ''expiresAt'' JNull)),
              proxy = Some (dict_get data ''proxy'' (JObj [])),
              fingerprint = Some (dict_get data ''fingerprint'' (JObj [])),
              loaded_profile_id = Some (dict_get data ''loaded_profile_id'' JNull)\<rparr>"
    by (simp_all add: update_conv')
  show ?thesis
    apply (rule exI [of _ status], rule exI [of _ data], rule exI [of _ k])
    using r k i m by (simp add: get_session_data_def dict_get_def split: option.split)
qed

theorem spawn_browser_success_id_token_witness:
  "\<exists>inst w' k s.
     spawn_browser example_env (always (Http_response 201 (JObj [(''session_id'', JStr ''s1'')])))
       0 0 example_options empty_world = (Inr inst, w')
   \<and> instance_id inst = JStr ''s1''
   \<and> hash_key (instance_id inst) = Some k
   \<and> get_session_data w' k = Some s
   \<and> session_token s = JStr ''s1''"
proof -
  obtain r w' where e:
    "spawn_browser example_env (always (Http_response 201 (JObj [(''session_id'', JStr ''s1'')])))
       0 0 example_options empty_world = (r, w')"
    by (cases "spawn_browser example_env
        (always (Http_response 201 (JObj [(''session_id'', JStr ''s1'')])))
        0 0 example_options empty_world")
  have "fst (spawn_browser example_env
        (always (Http_response 201 (JObj [(''session_id'', JStr ''s1'')])))
        0 0 example_options empty_world)
      = Inr ((pending_instance 0 0 example_options)\<lparr>instance_id := JStr ''s1'', state := READY\<rparr>)"
    using spawn_browser_ok(1) [of "always (Http_response 201 (JObj [(''session_id'', JStr ''s1'')]))"
        empty_world example_env example_options 201 "[(''session_id'', JStr ''s1'')]" "KStr ''s1''" 0 0]
    by (simp add: always_def dict_get_def)
  with e obtain inst where r: "r = Inr inst" by simp
  from spawn_browser_success_id_token [OF e [unfolded r]]
  show ?thesis using e r
    by (auto simp add: always_def dict_get_def)
qed

lemma example_world_is_created:
  "example_world = (snd (spawn_browser example_env
      (always (Http_response 201
         (JObj [(''session_id'', JStr ''s1''), (''session_token'', JStr ''tok1''),
                (''proxy'', JObj [(''country'', JStr ''US'')])])))
      0 0 example_options empty_world))\<lparr>sent := []\<rparr>"
  by (simp add: example_world_def spawn_browser_def spawn_browser_try_def http_call_def always_def
      dict_get_def Let_def store_session_def empty_world_def get_http_def pending_instance_def
      example_options_def py_or_def)

section \<open>Dispatch\<close>

lemma dict_update_Nil [simp]: "dict_update d [] = d"
  by (simp add: dict_update_def)

lemma command_request_eq:
  "command_request env s action params =
     \<lparr>verb = POST, url = API_BASE env @ ''/v1/sessions/'' @ py_str env (session_id s) @ ''/command'',
      json_body = Some (dict_update [(''action'', JStr action)]
                          (case params of Some p \<Rightarrow> p | None \<Rightarrow> [])),
      headers = [(''Content-Type'', ''application/json''),
                 (''Authorization'', ''Bearer '' @ py_str env (session_token s))]\<rparr>"
  by (simp add: command_request_def Let_def split: option.split)

lemma send_command_unhashable:
  "hash_key iid = None \<Longrightarrow> send_command env net iid action params w = (Inl TypeError, w)"
  by (simp add: send_command_def)

lemma send_command_absent:
  "hash_key iid = Some k \<Longrightarrow> map_of (instances w) k = None \<Longrightarrow>
   send_command env net iid action params w
     = (Inl (Exception (JStr (''No browser instance: '' @ py_str env iid))), w)"
  by (simp add: send_command_def)

lemma send_command_present:
  assumes "hash_key iid = Some k" and "map_of (instances w) k = Some s"
  shows "sent (snd (send_command env net iid action params w)) =
           sent w @ [command_request env s action params]"
    and "instances (snd (send_command env net iid action params w)) = instances w"
    and "fst (send_command env net iid action params w) =
           (case net (length (sent w)) (command_request env s action params) of
              Http_raises m \<Rightarrow> Inl (Raised m)
            | Http_response status data \<Rightarrow>
                if status = 200 then Inr data
                else (case py_get data ''error'' (JStr (''Command failed: '' @ str_int status)) of
                        Inl e \<Rightarrow> Inl e
                      | Inr v \<Rightarrow> Inl (Exception v)))"
  using assms
  by (simp_all add: send_command_def http_call_def Let_def split: response.split sum.split)

text \<open>
  What a dispatch does. An id that is absent from the registry gives the plain exception
  with the text \<open>No browser instance\<close> and leaves the world as it is, so no request is
  issued. An id that is present issues exactly one POST to the command endpoint of the
  session: its body is \<open>{action}\<close> merged with the params, its \<open>Authorization\<close> header is
  \<open>Bearer\<close> followed by the stored token. A response with status 200 is returned as
  decoded. Any other status whose body is a JSON object fails with the plain exception
  that carries the \<open>error\<close> field of the body, or the status code when there is none.
\<close>

lemma send_command_dispatch:
  assumes "hash_key iid = Some k"
  shows "(map_of (instances w) k = None \<longrightarrow>
      send_command env net iid action params w
        = (Inl (Exception (JStr (''No browser instance: '' @ py_str env iid))), w))
   \<and> (\<forall>s req. map_of (instances w) k = Some s
        \<and> req = \<lparr>verb = POST,
                  url = API_BASE env @ ''/v1/sessions/'' @ py_str env (session_id s) @ ''/command'',
                  json_body = Some (dict_update [(''action'', JStr action)]
                                      (case params of Some p \<Rightarrow> p | None \<Rightarrow> [])),
                  headers = [(''Content-Type'', ''application/json''),
                             (''Authorization'', ''Bearer '' @ py_str env (session_token s))]\<rparr>
      \<longrightarrow> sent (snd (send_command env net iid action params w)) = sent w @ [req]
        \<and> instances (snd (send_command env net iid action params w)) = instances w
        \<and> (\<forall>data. net (length (sent w)) req = Http_response 200 data \<longrightarrow>
              fst (send_command env net iid action params w) = Inr data)
        \<and> (\<forall>status data. net (length (sent w)) req = Http_response status (JObj data)
                \<and> status \<noteq> 200 \<longrightarrow>
              fst (send_command env net iid action params w) =
                Inl (Exception (dict_get data ''error''
                                  (JStr (''Command failed: '' @ str_int status))))))"
  using assms
  by (simp add: send_command_absent send_command_present command_request_eq)

text \<open>
  Claim C6 says that on every status other than 200 the dispatch fails with the generic
  error that carries the server message or the status code. The code reads the message
  with \<open>data.get\<close>: when the answer has status 500 and the body \<open>null\<close>, the call
  raises \<open>AttributeError\<close>, which carries neither.
\<close>

theorem send_command_null_body:
  "fst (send_command example_env (always (Http_response 500 JNull)) (JStr ''s1'') ''click''
          (Some [(''selector'', JStr ''#go'')]) example_world)
     = Inl AttributeError
   \<and> sent (snd (send_command example_env (always (Http_response 500 JNull)) (JStr ''s1'')
                  ''click'' (Some [(''selector'', JStr ''#go'')]) example_world))
     = [\<lparr>verb = POST, url = ''https://browser.proxies.sx/v1/sessions/s1/command'',
         json_body = Some [(''action'', JStr ''click''), (''selector'', JStr ''#go'')],
         headers = [(''Content-Type'', ''application/json''),
                    (''Authorization'', ''Bearer tok1'')]\<rparr>]"
  by (simp add: send_command_def http_call_def always_def Let_def example_world_def
      command_request_def example_env_def API_BASE_def dict_update_def get_http_def)

text \<open>
  Claim C10. When a creation answered with status 200 or 201 has the key
  \<open>session_token\<close> with the value null, the stored token is null and not the session
  id, and every command then sent for that instance has the \<open>Authorization\<close> header
  \<open>Bearer None\<close>, built from the null token.
\<close>

theorem null_session_token:
  assumes "net (length (sent w)) (create_request env options) = Http_response status (JObj data)"
    and "status = 200 \<or> status = 201"
    and "map_of data ''session_token'' = Some JNull"
    and "hash_key (dict_get data ''session_id'' JNull) = Some k"
  shows "\<exists>inst w' s.
           spawn_browser env net t1 t2 options w = (Inr inst, w')
         \<and> hash_key (instance_id inst) = Some k
         \<and> get_session_data w' k = Some s
         \<and> session_token s = JNull
         \<and> (\<forall>net' iid action params. hash_key iid = Some k \<longrightarrow> (\<exists>req.
               sent (snd (send_command env net' iid action params w')) = sent w' @ [req]
             \<and> map_of (headers req) ''Authorization'' = Some ''Bearer None''))"
proof -
  obtain r w' where e: "spawn_browser env net t1 t2 options w = (r, w')"
    by (cases "spawn_browser env net t1 t2 options w")
  from spawn_browser_ok [of net w env options status data k t1 t2] assms e
  obtain inst s where r: "r = Inr inst" and m: "map_of (instances w') k = Some s"
    and t: "session_token s = JNull" and i: "hash_key (instance_id inst) = Some k"
    by (simp add: update_conv' dict_get_def)
  have "\<exists>req. sent (snd (send_command env net' iid action params w')) = sent w' @ [req]
             \<and> map_of (headers req) ''Authorization'' = Some ''Bearer None''"
    if "hash_key iid = Some k" for net' iid action params
    using send_command_present(1) [OF that m, of env net' action params] t
    by (simp add: command_request_eq)
  with e r m t i show ?thesis by (simp add: get_session_data_def)
qed

theorem null_session_token_witness:
  "\<exists>inst w' s.
     spawn_browser example_env
       (always (Http_response 200 (JObj [(''session_id'', JStr ''s1''), (''session_token'', JNull)])))
       0 0 example_options empty_world = (Inr inst, w')
   \<and> instance_id inst = JStr ''s1''
   \<and> get_session_data w' (KStr ''s1'') = Some s
   \<and> session_token s = JNull
   \<and> (\<forall>net' action params. \<exists>req.
         sent (snd (send_command example_env net' (JStr ''s1'') action params w')) = sent w' @ [req]
       \<and> map_of (headers req) ''Authorization'' = Some ''Bearer None'')"
proof -
  have i: "instance_id inst = JStr ''s1''"
    if "spawn_browser example_env
       (always (Http_response 200 (JObj [(''session_id'', JStr ''s1''), (''session_token'', JNull)])))
       0 0 example_options empty_world = (Inr inst, w')" for inst w'
    using spawn_browser_ok(1) [of
        "always (Http_response 200 (JObj [(''session_id'', JStr ''s1''), (''session_token'', JNull)]))"
        empty_world example_env example_options 200
        "[(''session_id'', JStr ''s1''), (''session_token'', JNull)]" "KStr ''s1''" 0 0] that
    by (simp add: always_def dict_get_def)
  show ?thesis
    using null_session_token [of
        "always (Http_response 200 (JObj [(''session_id'', JStr ''s1''), (''session_token'', JNull)]))"
        empty_world example_env example_options 200
        "[(''session_id'', JStr ''s1''), (''session_token'', JNull)]" "KStr ''s1''" 0 0] i
    by (fastforce simp add: always_def dict_get_def)
qed

section \<open>Navigation\<close>

lemma navigate_update_absent:
  "hash_key iid = Some k \<Longrightarrow> map_of (instances w) k = None \<Longrightarrow>
   navigate_update now iid u result w = Inr w"
  by (simp add: navigate_update_def)

lemma navigate_update_present:
  assumes "hash_key iid = Some k" and "map_of (instances w) k = Some s"
  shows "navigate_update now iid u (JObj d) w =
           Inr (w\<lparr>instances :=
                  AList.update k
                    (s\<lparr>instance := (instance s)
                         \<lparr>current_url := dict_get d ''url'' (JStr u),
                          title := dict_get d ''title'' (JStr []),
                          state := READY,
                          last_activity := now\<rparr>\<rparr>)
                    (instances w)\<rparr>)"
    and "(\<And>d. result \<noteq> JObj d) \<Longrightarrow> navigate_update now iid u result w = Inl AttributeError"
  using assms by (simp_all add: navigate_update_def py_get_no_dict)

lemma navigate_Inr:
  assumes "navigate env net now iid u wait_until w = (Inr result, w')"
  obtains k s w1 d where "hash_key iid = Some k" and "map_of (instances w) k = Some s"
    and "instances w1 = instances w"
    and "result = JObj d"
    and "navigate_update now iid u result w1 = Inr w'"
proof (cases "hash_key iid")
  case None
  with assms show ?thesis
    by (simp add: navigate_def send_command_unhashable)
next
  case k: (Some k)
  show ?thesis
  proof (cases "map_of (instances w) k")
    case None
    with k assms show ?thesis
      by (simp add: navigate_def send_command_absent)
  next
    case (Some s)
    obtain r w1 where e: "send_command env net iid ''navigate''
             (Some [(''url'', JStr u), (''wait_until'', JStr wait_until)]) w = (r, w1)"
      by (cases "send_command env net iid ''navigate''
             (Some [(''url'', JStr u), (''wait_until'', JStr wait_until)]) w")
    with assms have r: "r = Inr result" and w': "navigate_update now iid u result w1 = Inr w'"
      by (auto simp add: navigate_def split: sum.splits)
    from send_command_present(2) [OF k Some, of env net "''navigate''"
        "Some [(''url'', JStr u), (''wait_until'', JStr wait_until)]"] e
    have i: "instances w1 = instances w" by simp
    have "\<exists>d. result = JObj d"
    proof (rule ccontr)
      assume "\<not> (\<exists>d. result = JObj d)"
      then have "navigate_update now iid u result w1 = Inl AttributeError"
        using navigate_update_present(2) [of iid k w1 s result now u] k Some i by simp
      with w' show False by simp
    qed
    then obtain d where "result = JObj d" ..
    with k Some i w' that show ?thesis by blast
  qed
qed

text \<open>
  Claim C7. After a successful \<open>navigate\<close> the record of the instance is still under
  its id, with \<open>current_url\<close> set to the \<open>url\<close> field of the response when it has one
  and to the requested url otherwise, \<open>title\<close> set to the \<open>title\<close> field when there is
  one and to the empty string otherwise, the state \<open>READY\<close> and the last activity set
  to the time of the update. Nothing else in the record changes, and no other record
  does.
\<close>

theorem navigate_updates_cached_instance:
  assumes "navigate env net now iid u wait_until w = (Inr result, w')"
  shows "\<exists>k d s s'. hash_key iid = Some k \<and> result = JObj d
         \<and> get_session_data w k = Some s \<and> get_session_data w' k = Some s'
         \<and> current_url (instance s') =
              (case map_of d ''url'' of Some v \<Rightarrow> v | None \<Rightarrow> JStr u)
         \<and> title (instance s') =
              (case map_of d ''title'' of Some v \<Rightarrow> v | None \<Rightarrow> JStr [])
         \<and> state (instance s') = READY
         \<and> last_activity (instance s') = now
         \<and> s' = s\<lparr>instance := (instance s)\<lparr>current_url := current_url (instance s'),
                     title := title (instance s'), state := READY, last_activity := now\<rparr>\<rparr>
         \<and> session_id s' = session_id s \<and> session_token s' = session_token s
         \<and> expires_at s' = expires_at s \<and> proxy s' = proxy s
         \<and> fingerprint s' = fingerprint s
         \<and> (\<forall>k'. k' \<noteq> k \<longrightarrow> get_session_data w' k' = get_session_data w k')"
proof -
  from assms obtain k s w1 d where k: "hash_key iid = Some k"
    and s: "map_of (instances w) k = Some s"
    and i: "instances w1 = instances w"
    and d: "result = JObj d"
    and w': "navigate_update now iid u result w1 = Inr w'"
    by (rule navigate_Inr)
  from navigate_update_present(1) [of iid k w1 s now u d] k s i d w'
  have "instances w' =
          AList.update k
            (s\<lparr>instance := (instance s)
                 \<lparr>current_url := dict_get d ''url'' (JStr u),
                  title := dict_get d ''title'' (JStr []),
                  state := READY,
                  last_activity := now\<rparr>\<rparr>)
            (instances w)"
    by auto
  with k s d show ?thesis
    by (simp add: get_session_data_def update_conv' dict_get_def)
qed

theorem navigate_updates_cached_instance_witness:
  "\<exists>result w' s s'.
     navigate example_env (always (Http_response 200 (JObj [(''title'', JStr ''Example Domain'')])))
       7 (JStr ''s1'') ''https://example.com'' ''domcontentloaded'' example_world = (Inr result, w')
   \<and> get_session_data example_world (KStr ''s1'') = Some s
   \<and> get_session_data w' (KStr ''s1'') = Some s'
   \<and> current_url (instance s') = JStr ''https://example.com''
   \<and> title (instance s') = JStr ''Example Domain''
   \<and> state (instance s') = READY
   \<and> last_activity (instance s') = 7
   \<and> session_token s' = JStr ''tok1''"
proof -
  have e: "navigate example_env
       (always (Http_response 200 (JObj [(''title'', JStr ''Example Domain'')]))) 7
       (JStr ''s1'') ''https://example.com'' ''domcontentloaded'' example_world
     = (Inr (JObj [(''title'', JStr ''Example Domain'')]),
        snd (navigate example_env
          (always (Http_response 200 (JObj [(''title'', JStr ''Example Domain'')]))) 7
          (JStr ''s1'') ''https://example.com'' ''domcontentloaded'' example_world))"
    by (simp add: navigate_def navigate_update_def send_command_def http_call_def always_def
        example_world_def Let_def)
  from navigate_updates_cached_instance [OF e]
  show ?thesis using e
    by (auto simp add: get_session_data_def example_world_def)
qed

section \<open>Removal\<close>

lemma close_browser_absent:
  "map_of (instances w) iid = None \<Longrightarrow> close_browser env net iid w = (False, w)"
  by (simp add: close_browser_def)

lemma close_browser_present:
  assumes "map_of (instances w) iid = Some s"
  shows "fst (close_browser env net iid w) = True"
    and "instances (snd (close_browser env net iid w)) = AList.delete iid (instances w)"
    and "sent (snd (close_browser env net iid w)) = sent w @ [close_request env s]"
proof -
  from assms have "iid \<in> fst ` set (instances w)"
    by (metis map_of_eq_None_iff option.distinct(1))
  with assms show "fst (close_browser env net iid w) = True"
    and "instances (snd (close_browser env net iid w)) = AList.delete iid (instances w)"
    and "sent (snd (close_browser env net iid w)) = sent w @ [close_request env s]"
    by (simp_all add: close_browser_def close_browser_except_def py_del_def http_call_def Let_def
        split: response.split)
qed

lemma close_browser_instances:
  "instances (snd (close_browser env net iid w)) = AList.delete iid (instances w)"
proof (cases "map_of (instances w) iid")
  case None
  then have "iid \<notin> fst ` set (instances w)" by (simp add: map_of_eq_None_iff)
  with None show ?thesis by (simp add: close_browser_absent)
next
  case (Some s)
  then show ?thesis by (rule close_browser_present(2))
qed

lemma close_fold_keys:
  "fst ` set (instances (foldl (\<lambda>w iid. snd (close_browser env net iid w)) w ks))
     = fst ` set (instances w) - set ks"
proof (induction ks arbitrary: w)
  case Nil
  show ?case by simp
next
  case (Cons k ks)
  have "fst ` set (AList.delete k (instances w)) = fst ` set (instances w) - {k}"
    by (auto simp add: AList.delete_eq)
  with Cons [of "snd (close_browser env net k w)"] show ?case
    by (auto simp add: close_browser_instances)
qed

lemma close_all_empty: "instances (close_all env net w) = []"
proof -
  have "fst ` set (instances (close_all env net w)) = {}"
    unfolding close_all_def by (simp add: close_fold_keys)
  then show ?thesis by simp
qed

text \<open>
  Claim C8. \<open>close_browser\<close> returns false exactly when the id is not in the registry.
  When the id is in the registry the call returns true and the id is gone afterwards,
  whatever the remote delete call does, raising included. After \<open>close_all\<close> every id
  that was tracked is gone.
\<close>

theorem close_browser_and_close_all:
  "(fst (close_browser env net iid w) = False \<longleftrightarrow> get_session_data w iid = None)
   \<and> (get_session_data w iid \<noteq> None \<longrightarrow>
        fst (close_browser env net iid w) = True
      \<and> get_session_data (snd (close_browser env net iid w)) iid = None)
   \<and> (\<forall>k. get_session_data w k \<noteq> None \<longrightarrow> get_session_data (close_all env net w) k = None)"
proof -
  have a: "fst (close_browser env net iid w) = False \<longleftrightarrow> get_session_data w iid = None"
    by (cases "map_of (instances w) iid")
      (simp_all add: get_session_data_def close_browser_absent close_browser_present(1))
  have b: "get_session_data (snd (close_browser env net iid w)) iid = None"
    by (simp add: get_session_data_def close_browser_instances delete_conv')
  have c: "get_session_data (close_all env net w) k = None" for k
    by (simp add: get_session_data_def close_all_empty)
  from a b c show ?thesis by auto
qed

theorem close_browser_and_close_all_witness:
  "fst (close_browser example_env (always (Http_raises ''connection reset'')) (KStr ''s2'')
          example_world) = False
   \<and> get_session_data example_world (KStr ''s2'') = None
   \<and> get_session_data example_world (KStr ''s1'') \<noteq> None
   \<and> fst (close_browser example_env (always (Http_raises ''connection reset'')) (KStr ''s1'')
          example_world) = True
   \<and> get_session_data
         (snd (close_browser example_env (always (Http_raises ''connection reset'')) (KStr ''s1'')
                 example_world)) (KStr ''s1'') = None
   \<and> get_session_data
         (close_all example_env (always (Http_raises ''connection reset'')) example_world)
         (KStr ''s1'') = None"
  using close_browser_and_close_all [of example_env "always (Http_raises ''connection reset'')"
        "KStr ''s2''" example_world]
    close_browser_and_close_all [of example_env "always (Http_raises ''connection reset'')"
        "KStr ''s1''" example_world]
  by (simp add: get_session_data_def example_world_def)

section \<open>Price normalization\<close>

text \<open>The tool layer applies the same rule as the error type.\<close>

lemma handler_price_usd_eq: "handler_price_usd env info = init_price_usd env info"
  by (simp add: handler_price_usd_def init_price_usd_def)

text \<open>A bare int above 1000 is divided by 1,000,000: the result is the rounded quotient,
  and the division overflows beyond the range of binary64.\<close>

lemma init_price_usd_micro:
  "1000 < i \<Longrightarrow>
   init_price_usd env [(''price'', JInt i)] =
     (case round64 env (of_int i / 1000000) of
        Some f \<Rightarrow> Inr f
      | None \<Rightarrow> Inl OverflowError)"
  by (simp add: init_price_usd_def dict_get_def)


section \<open>The payment-required sentinel\<close>

lemma payment_required_world_eq:
  "payment_required_world =
     \<lparr>instances =
        [(KStr ''payment_required'',
          \<lparr>instance = \<lparr>instance_id = JStr ''payment_required'', state = ERROR, current_url = JNull,
                        title = JNull, created_at = 0, last_activity = 0, headless = True,
                        user_agent = None, viewport = [(''width'', 1920), (''height'', 1080)]\<rparr>,
           session_id = JNull, session_token = JNull,
           payment_info = Some (JObj [(''price'', JInt 1500000),
                (''networks'', JArr [JObj [(''network'', JStr ''base''),
                                           (''address'', JStr ''0xabc'')]])]),
           expires_at = None, proxy = None, fingerprint = None, loaded_profile_id = None\<rparr>)],
      http_open = True,
      sent = [\<lparr>verb = POST, url = ''https://browser.proxies.sx/v1/sessions'',
               json_body = Some [(''country'', JStr ''US''), (''durationMinutes'', JInt 60)],
               headers = [(''Content-Type'', ''application/json'')]\<rparr>]\<rparr>"
  by (simp add: payment_required_world_def spawn_browser_def spawn_browser_try_def http_call_def
      always_def Let_def empty_world_def get_http_def pending_instance_def example_options_def
      create_request_def request_body_def request_headers_def example_env_def API_BASE_def)

text \<open>
  Claim C1 says that a dispatch to \<open>payment_required\<close>, while the sentinel record is in
  the registry, fails with the unknown-instance error and issues no request. The code
  has no check for the sentinel: after a creation answered with 402, a dispatch to it
  issues a POST and returns the answer.
\<close>

theorem sentinel_dispatch_counterexample:
  "fst (send_command example_env (always (Http_response 200 (JObj [(''ok'', JBool True)])))
          (JStr ''payment_required'') ''click'' None payment_required_world)
     = Inr (JObj [(''ok'', JBool True)])
   \<and> sent (snd (send_command example_env (always (Http_response 200 (JObj [(''ok'', JBool True)])))
                  (JStr ''payment_required'') ''click'' None payment_required_world))
     = sent payment_required_world @
         [\<lparr>verb = POST, url = ''https://browser.proxies.sx/v1/sessions/None/command'',
           json_body = Some [(''action'', JStr ''click'')],
           headers = [(''Content-Type'', ''application/json''),
                      (''Authorization'', ''Bearer None'')]\<rparr>]"
  by (simp add: payment_required_world_eq send_command_def http_call_def always_def Let_def
      command_request_def example_env_def API_BASE_def get_http_def)

text \<open>
  Claim C1 as amended. A creation answered with 402 leaves a record under
  \<open>payment_required\<close> whose session id and token are null. While such a record is in
  the registry, a dispatch to \<open>payment_required\<close> is not refused: it issues exactly one
  POST, to the command endpoint of the session \<open>None\<close> with the header
  \<open>Authorization: Bearer None\<close>, and a response with status 200 is returned as decoded.
\<close>

theorem sentinel_dispatch:
  "(net (length (sent w)) (create_request env options) = Http_response 402 data \<longrightarrow>
      (\<exists>s. get_session_data (snd (spawn_browser env net t1 t2 options w))
              (KStr ''payment_required'') = Some s
           \<and> session_id s = JNull \<and> session_token s = JNull))
   \<and> (\<forall>s req. get_session_data w1 (KStr ''payment_required'') = Some s
          \<and> session_id s = JNull \<and> session_token s = JNull
          \<and> req = \<lparr>verb = POST, url = API_BASE env @ ''/v1/sessions/None/command'',
                    json_body = Some (dict_update [(''action'', JStr action)]
                                        (case params of Some p \<Rightarrow> p | None \<Rightarrow> [])),
                    headers = [(''Content-Type'', ''application/json''),
                               (''Authorization'', ''Bearer None'')]\<rparr>
        \<longrightarrow> sent (snd (send_command env net1 (JStr ''payment_required'') action params w1))
              = sent w1 @ [req]
          \<and> instances (snd (send_command env net1 (JStr ''payment_required'') action params w1))
              = instances w1
          \<and> (\<forall>d. net1 (length (sent w1)) req = Http_response 200 d \<longrightarrow>
                fst (send_command env net1 (JStr ''payment_required'') action params w1) = Inr d))"
proof (intro conjI impI allI)
  assume "net (length (sent w)) (create_request env options) = Http_response 402 data"
  then show "\<exists>s. get_session_data (snd (spawn_browser env net t1 t2 options w))
              (KStr ''payment_required'') = Some s
           \<and> session_id s = JNull \<and> session_token s = JNull"
    by (simp add: get_session_data_def spawn_browser_402(2) update_conv')
next
  fix s req
  assume a: "get_session_data w1 (KStr ''payment_required'') = Some s
          \<and> session_id s = JNull \<and> session_token s = JNull
          \<and> req = \<lparr>verb = POST, url = API_BASE env @ ''/v1/sessions/None/command'',
                    json_body = Some (dict_update [(''action'', JStr action)]
                                        (case params of Some p \<Rightarrow> p | None \<Rightarrow> [])),
                    headers = [(''Content-Type'', ''application/json''),
                               (''Authorization'', ''Bearer None'')]\<rparr>"
  then have m: "map_of (instances w1) (KStr ''payment_required'') = Some s"
    and req: "command_request env s action params = req"
    by (simp_all add: get_session_data_def command_request_eq)
  have h: "hash_key (JStr ''payment_required'') = Some (KStr ''payment_required'')"
    by simp
  show "sent (snd (send_command env net1 (JStr ''payment_required'') action params w1))
              = sent w1 @ [req]"
    using send_command_present(1) [OF h m] req by simp
  show "instances (snd (send_command env net1 (JStr ''payment_required'') action params w1))
              = instances w1"
    using send_command_present(2) [OF h m] by simp
  show "fst (send_command env net1 (JStr ''payment_required'') action params w1) = Inr d"
    if "net1 (length (sent w1)) req = Http_response 200 d" for d
    using send_command_present(3) [OF h m, of env net1 action params] req that by simp
qed

theorem sentinel_dispatch_witness:
  "(\<exists>s. get_session_data payment_required_world (KStr ''payment_required'') = Some s
        \<and> session_id s = JNull \<and> session_token s = JNull)
   \<and> sent (snd (send_command example_env (always (Http_response 200 (JObj [(''ok'', JBool True)])))
                  (JStr ''payment_required'') ''click'' None payment_required_world))
     = sent payment_required_world @
         [\<lparr>verb = POST, url = ''https://browser.proxies.sx/v1/sessions/None/command'',
           json_body = Some [(''action'', JStr ''click'')],
           headers = [(''Content-Type'', ''application/json''),
                      (''Authorization'', ''Bearer None'')]\<rparr>]
   \<and> fst (send_command example_env (always (Http_response 200 (JObj [(''ok'', JBool True)])))
             (JStr ''payment_required'') ''click'' None payment_required_world)
     = Inr (JObj [(''ok'', JBool True)])"
proof -
  have m: "get_session_data payment_required_world (KStr ''payment_required'')
             = Some (snd (hd (instances payment_required_world)))"
    "session_id (snd (hd (instances payment_required_world))) = JNull"
    "session_token (snd (hd (instances payment_required_world))) = JNull"
    by (simp_all add: payment_required_world_eq get_session_data_def)
  have b: "API_BASE example_env = ''https://browser.proxies.sx''"
    by (simp add: API_BASE_def example_env_def)
  show ?thesis
    using sentinel_dispatch [of
        "always (Http_response 402
               (JObj [(''price'', JInt 1500000),
                      (''networks'', JArr [JObj [(''network'', JStr ''base''),
                                                 (''address'', JStr ''0xabc'')]])]))"
        empty_world example_env example_options
        "JObj [(''price'', JInt 1500000),
               (''networks'', JArr [JObj [(''network'', JStr ''base''),
                                          (''address'', JStr ''0xabc'')]])]"
        0 0 payment_required_world "''click''" None
        "always (Http_response 200 (JObj [(''ok'', JBool True)]))"]
    by (simp add: m b always_def payment_required_world_def [symmetric])
qed

section \<open>Creation by status\<close>

text \<open>
  Claim C3 says that every status in the 2xx range makes creation succeed. The code
  accepts 200 and 201 only: a response with status 202 fails like any other error
  status. A response with status 200 whose \<open>session_id\<close> is a list cannot be stored
  under that id, and fails as well.
\<close>

theorem creation_status_counterexample:
  "fst (spawn_browser example_env
          (always (Http_response 202 (JObj [(''session_id'', JStr ''s1'')]))) 0 0
          example_options empty_world)
     = Inl (Failed_to_create (Exception (JStr ''API error 202'')))
   \<and> instances (snd (spawn_browser example_env
                     (always (Http_response 202 (JObj [(''session_id'', JStr ''s1'')]))) 0 0
                     example_options empty_world)) = []
   \<and> fst (spawn_browser example_env
            (always (Http_response 200 (JObj [(''session_id'', JArr [])]))) 0 0
            example_options empty_world)
     = Inl (Failed_to_create TypeError)"
proof -
  have str: "str_int 202 = ''202''"
    by (simp add: str_int_def str_nat.simps)
  show ?thesis
    by (simp add: spawn_browser_def spawn_browser_try_def store_session_def http_call_def
        always_def Let_def dict_get_def str empty_world_def get_http_def)
qed

text \<open>
  Claim C3 as amended, for a response whose body decodes to a JSON object. When the
  status is 200 or 201 and the \<open>session_id\<close> of the body is hashable, creation
  succeeds: the instance returned has that id and the state \<open>READY\<close>, and the record
  stored under the id holds the instance, the session id and the token (the
  \<open>session_token\<close> of the body, or the session id). For every status other than 200, 201
  and 402 creation fails with the generic error that carries the \<open>error\<close> field of the
  body, or \<open>API error\<close> and the status when there is none. For every such status,
  whatever the body, creation fails with the generic error and the registry is
  unchanged.
\<close>

theorem creation_by_status:
  assumes "net (length (sent w)) (create_request env options) = Http_response status body"
  shows "((status = 200 \<or> status = 201) \<and> body = JObj data
            \<and> hash_key (dict_get data ''session_id'' JNull) = Some k \<longrightarrow>
           (\<exists>inst s. fst (spawn_browser env net t1 t2 options w) = Inr inst
              \<and> instance_id inst = dict_get data ''session_id'' JNull
              \<and> state inst = READY
              \<and> get_session_data (snd (spawn_browser env net t1 t2 options w)) k = Some s
              \<and> instance s = inst
              \<and> session_id s = dict_get data ''session_id'' JNull
              \<and> session_token s = dict_get data ''session_token'' (dict_get data ''session_id'' JNull)))
       \<and> (status \<noteq> 200 \<and> status \<noteq> 201 \<and> status \<noteq> 402 \<and> body = JObj data \<longrightarrow>
            fst (spawn_browser env net t1 t2 options w)
              = Inl (Failed_to_create
                       (Exception (dict_get data ''error'' (JStr (''API error '' @ str_int status))))))
       \<and> (status \<noteq> 200 \<and> status \<noteq> 201 \<and> status \<noteq> 402 \<longrightarrow>
            (\<exists>e. fst (spawn_browser env net t1 t2 options w) = Inl (Failed_to_create e))
          \<and> instances (snd (spawn_browser env net t1 t2 options w)) = instances w)"
proof (intro conjI impI)
  assume a: "(status = 200 \<or> status = 201) \<and> body = JObj data
     \<and> hash_key (dict_get data ''session_id'' JNull) = Some k"
  from spawn_browser_ok [of net w env options status data k t1 t2] assms a
  show "\<exists>inst s. fst (spawn_browser env net t1 t2 options w) = Inr inst
              \<and> instance_id inst = dict_get data ''session_id'' JNull
              \<and> state inst = READY
              \<and> get_session_data (snd (spawn_browser env net t1 t2 options w)) k = Some s
              \<and> instance s = inst
              \<and> session_id s = dict_get data ''session_id'' JNull
              \<and> session_token s = dict_get data ''session_token'' (dict_get data ''session_id'' JNull)"
    by (simp add: get_session_data_def update_conv')
next
  assume b: "status \<noteq> 200 \<and> status \<noteq> 201 \<and> status \<noteq> 402 \<and> body = JObj data"
  from spawn_browser_other(1) [of net w env options status body t1 t2] assms b
  show "fst (spawn_browser env net t1 t2 options w)
              = Inl (Failed_to_create
                       (Exception (dict_get data ''error'' (JStr (''API error '' @ str_int status)))))"
    by simp
next
  assume c: "status \<noteq> 200 \<and> status \<noteq> 201 \<and> status \<noteq> 402"
  from spawn_browser_other(1) [of net w env options status body t1 t2] assms c
  show "\<exists>e. fst (spawn_browser env net t1 t2 options w) = Inl (Failed_to_create e)"
    by (simp split: sum.split)
  from spawn_browser_other(2) [of net w env options status body t1 t2] assms c
  show "instances (snd (spawn_browser env net t1 t2 options w)) = instances w"
    by simp
qed

theorem creation_by_status_witness:
  "(\<exists>inst s. fst (spawn_browser example_env
                    (always (Http_response 201 (JObj [(''session_id'', JStr ''s1'')]))) 0 0
                    example_options empty_world) = Inr inst
      \<and> instance_id inst = JStr ''s1''
      \<and> state inst = READY
      \<and> get_session_data (snd (spawn_browser example_env
                    (always (Http_response 201 (JObj [(''session_id'', JStr ''s1'')]))) 0 0
                    example_options empty_world)) (KStr ''s1'') = Some s
      \<and> instance s = inst
      \<and> session_token s = JStr ''s1'')
   \<and> fst (spawn_browser example_env
            (always (Http_response 503 (JObj [(''error'', JStr ''no capacity'')]))) 0 0
            example_options example_world)
       = Inl (Failed_to_create (Exception (JStr ''no capacity'')))
   \<and> instances (snd (spawn_browser example_env
            (always (Http_response 503 (JObj [(''error'', JStr ''no capacity'')]))) 0 0
            example_options example_world)) = instances example_world"
  using creation_by_status [of "always (Http_response 201 (JObj [(''session_id'', JStr ''s1'')]))"
      empty_world example_env example_options 201 "JObj [(''session_id'', JStr ''s1'')]"
      "[(''session_id'', JStr ''s1'')]" "KStr ''s1''" 0 0]
    creation_by_status [of "always (Http_response 503 (JObj [(''error'', JStr ''no capacity'')]))"
      example_world example_env example_options 503 "JObj [(''error'', JStr ''no capacity'')]"
      "[(''error'', JStr ''no capacity'')]" "KStr ''s1''" 0 0]
  by (auto simp add: always_def dict_get_def)

section \<open>Creation answered with 402\<close>

text \<open>
  When the message of the error can be built, a creation answered with 402 raises
  \<open>PaymentRequiredError\<close> with the whole body, unwrapped.
\<close>

lemma spawn_browser_402_raises:
  assumes "net (length (sent w)) (create_request env options) = Http_response 402 (JObj data)"
    and "init_addrs env data = Inr addrs" and "init_price_usd env data = Inr price_usd"
  shows "fst (spawn_browser env net t1 t2 options w) = Inl (PaymentRequiredError data price_usd addrs)"
  using assms by (simp add: spawn_browser_402(1) PaymentRequiredError_init_def)

text \<open>
  Claim C4 says that every creation answered with 402 fails with the payment-required
  condition. The constructor of \<open>PaymentRequiredError\<close> formats the price before the
  exception exists: on the body \<open>{"price": null}\<close> the call \<open>float(None)\<close> raises
  \<open>TypeError\<close> inside the constructor, and \<open>spawn_browser\<close> wraps that into the generic
  failure.
\<close>

theorem payment_required_null_price:
  "fst (spawn_browser example_env (always (Http_response 402 (JObj [(''price'', JNull)]))) 0 0
          example_options empty_world)
     = Inl (Failed_to_create TypeError)
   \<and> PaymentRequiredError_init example_env (JObj [(''price'', JNull)]) = TypeError"
  by (simp add: spawn_browser_402(1) always_def PaymentRequiredError_init_def init_addrs_def
      init_price_usd_def dict_get_def)

end
